theory Spec2Isabelle
  imports Complex_Main
begin

section \<open>The graph viewer of the OrgMind frontend\<close>

text \<open>
  This theory embeds the component \<^verbatim>\<open>GraphViewer\<close> of
  \<^verbatim>\<open>frontend/src/components/graph/graph-viewer.tsx\<close>: the state it holds in React
  hooks, the handlers that change that state, the layout it derives from the loaded
  graph and the query for the nodes connected to a node.

  JavaScript numbers are modelled as real numbers: the arithmetic of the handlers is
  taken exactly, and the rounding of IEEE doubles is not modelled. Strings are
  \<^typ>\<open>string\<close>, arrays are lists, and the \<^verbatim>\<open>Record<string, ...>\<close> built by the layout
  is a map.
\<close>

subsection \<open>Data\<close>

text \<open>
  The shapes \<^verbatim>\<open>GraphNode\<close>, \<^verbatim>\<open>GraphEdge\<close> and \<^verbatim>\<open>GraphData\<close> that the component imports
  from the API client. The fields \<^verbatim>\<open>id\<close> and \<^verbatim>\<open>type\<close> carry the name of their record as
  a prefix, since \<open>id\<close> is the identity function of HOL.
\<close>

record GraphNode =
  node_id :: string
  node_type :: string
  label :: string
  properties :: "(string \<times> string) list"

record GraphEdge =
  edge_id :: string
  source :: string
  target :: string
  edge_type :: string

record GraphData =
  nodes :: "GraphNode list"
  edges :: "GraphEdge list"

text \<open>A point \<^verbatim>\<open>{ x, y }\<close>, as held in \<^verbatim>\<open>position\<close>, \<^verbatim>\<open>dragStart\<close> and the layout.\<close>

record Point =
  x :: real
  y :: real

text \<open>
  The state of the component: one field for each \<^verbatim>\<open>useState\<close> hook, with the initial
  values the hooks are given.
\<close>

record ViewerState =
  graphData :: GraphData
  loading :: bool
  error :: "string option"
  selectedNode :: "GraphNode option"
  scale :: real
  position :: Point
  isDragging :: bool
  dragStart :: Point

definition initialState :: ViewerState where
  "initialState =
     \<lparr>graphData = \<lparr>nodes = [], edges = []\<rparr>,
      loading = False,
      error = None,
      selectedNode = None,
      scale = 1,
      position = \<lparr>x = 0, y = 0\<rparr>,
      isDragging = False,
      dragStart = \<lparr>x = 0, y = 0\<rparr>\<rparr>"

subsection \<open>Zoom\<close>

text \<open>
  \<^verbatim>\<open>handleZoomIn = () => setScale(s => Math.min(s * 1.2, 3))\<close>,
  \<^verbatim>\<open>handleZoomOut = () => setScale(s => Math.max(s / 1.2, 0.3))\<close> and
  \<^verbatim>\<open>handleFit\<close>, which sets the scale to 1 and the position to the origin.
\<close>

definition handleZoomIn :: "ViewerState \<Rightarrow> ViewerState" where
  "handleZoomIn st = st\<lparr>scale := min (scale st * 1.2) 3\<rparr>"

definition handleZoomOut :: "ViewerState \<Rightarrow> ViewerState" where
  "handleZoomOut st = st\<lparr>scale := max (scale st / 1.2) 0.3\<rparr>"

definition handleFit :: "ViewerState \<Rightarrow> ViewerState" where
  "handleFit st = st\<lparr>scale := 1, position := \<lparr>x = 0, y = 0\<rparr>\<rparr>"

text \<open>The three toolbar buttons, and a run of clicks on them.\<close>

datatype ZoomClick = ZoomIn | ZoomOut | Maximize

fun zoomClick :: "ZoomClick \<Rightarrow> ViewerState \<Rightarrow> ViewerState" where
  "zoomClick ZoomIn st = handleZoomIn st"
| "zoomClick ZoomOut st = handleZoomOut st"
| "zoomClick Maximize st = handleFit st"

definition zoomClicks :: "ZoomClick list \<Rightarrow> ViewerState \<Rightarrow> ViewerState" where
  "zoomClicks cs st = fold zoomClick cs st"

subsection \<open>Loading a neighbourhood\<close>

text \<open>
  What \<^verbatim>\<open>api.graph.get\<close> can throw: the handler reads the message of an \<^verbatim>\<open>Error\<close> and
  replaces any other thrown value by a fixed text.
\<close>

datatype Thrown = ErrorObject string | OtherValue

fun errorText :: "Thrown \<Rightarrow> string" where
  "errorText (ErrorObject message) = message"
| "errorText OtherValue = ''Failed to load graph''"

text \<open>
  \<^verbatim>\<open>loadGraph\<close> runs in two parts. Up to the \<^verbatim>\<open>await\<close> it sets the loading flag and
  clears the error; when the request settles it either stores the data
  (\<^verbatim>\<open>setGraphData(data)\<close>) or sets the error, and in both cases clears the loading flag.
  The request itself belongs to the API client and is a parameter: a function from the
  node id and the depth to what the request settles with.
\<close>

definition loadGraph_start :: "ViewerState \<Rightarrow> ViewerState" where
  "loadGraph_start st = st\<lparr>loading := True, error := None\<rparr>"

definition loadGraph_settle :: "Thrown + GraphData \<Rightarrow> ViewerState \<Rightarrow> ViewerState" where
  "loadGraph_settle outcome st =
     (case outcome of
        Inr data \<Rightarrow> st\<lparr>graphData := data\<rparr>
      | Inl err \<Rightarrow> st\<lparr>error := Some (errorText err)\<rparr>)\<lparr>loading := False\<rparr>"

definition loadGraph ::
  "(string \<Rightarrow> nat \<Rightarrow> Thrown + GraphData) \<Rightarrow> string \<Rightarrow> nat \<Rightarrow> ViewerState \<Rightarrow> ViewerState" where
  "loadGraph api_graph_get nodeId depth st =
     loadGraph_settle (api_graph_get nodeId depth) (loadGraph_start st)"

text \<open>
  A double click on a node calls \<^verbatim>\<open>loadGraph(node.id)\<close>, so with the default depth 2.
\<close>

definition handleNodeDoubleClick ::
  "(string \<Rightarrow> nat \<Rightarrow> Thrown + GraphData) \<Rightarrow> GraphNode \<Rightarrow> ViewerState \<Rightarrow> ViewerState" where
  "handleNodeDoubleClick api_graph_get node st = loadGraph api_graph_get (node_id node) 2 st"

text \<open>
  Several calls of \<^verbatim>\<open>loadGraph\<close> can be outstanding at once, since a call suspends at
  its \<^verbatim>\<open>await\<close>. The events of such a history are the calls and the arrivals of their
  results, each with the number of its call. The number only names the call in the
  history: the component keeps none, and neither part of \<^verbatim>\<open>loadGraph\<close> reads it.
\<close>

datatype LoadEvent = Issue nat | Settle nat "Thrown + GraphData"

fun loadEvent :: "LoadEvent \<Rightarrow> ViewerState \<Rightarrow> ViewerState" where
  "loadEvent (Issue k) st = loadGraph_start st"
| "loadEvent (Settle k outcome) st = loadGraph_settle outcome st"

definition loadEvents :: "LoadEvent list \<Rightarrow> ViewerState \<Rightarrow> ViewerState" where
  "loadEvents evs st = fold loadEvent evs st"

text \<open>The data of the last result of a history that arrived without an error.\<close>

fun lastArrived :: "LoadEvent list \<Rightarrow> GraphData option" where
  "lastArrived [] = None"
| "lastArrived (Issue k # evs) = lastArrived evs"
| "lastArrived (Settle k (Inl err) # evs) = lastArrived evs"
| "lastArrived (Settle k (Inr data) # evs) =
     (case lastArrived evs of None \<Rightarrow> Some data | Some later \<Rightarrow> Some later)"

subsection \<open>Panning\<close>

text \<open>
  A mouse event, with the two coordinates the handlers read and the value of the test
  that \<^verbatim>\<open>handleMouseDown\<close> makes on its target
  (\<^verbatim>\<open>e.target === containerRef.current || e.target.closest('.graph-canvas')\<close>).
\<close>

record MouseEvent =
  clientX :: real
  clientY :: real
  targetOnCanvas :: bool

definition handleMouseDown :: "MouseEvent \<Rightarrow> ViewerState \<Rightarrow> ViewerState" where
  "handleMouseDown e st =
     (if targetOnCanvas e
      then st\<lparr>isDragging := True,
              dragStart := \<lparr>x = clientX e - x (position st), y = clientY e - y (position st)\<rparr>\<rparr>
      else st)"

definition handleMouseMove :: "MouseEvent \<Rightarrow> ViewerState \<Rightarrow> ViewerState" where
  "handleMouseMove e st =
     (if isDragging st
      then st\<lparr>position := \<lparr>x = clientX e - x (dragStart st), y = clientY e - y (dragStart st)\<rparr>\<rparr>
      else st)"

definition handleMouseUp :: "ViewerState \<Rightarrow> ViewerState" where
  "handleMouseUp st = st\<lparr>isDragging := False\<rparr>"

subsection \<open>Layout\<close>

text \<open>
  The element behind \<^verbatim>\<open>containerRef\<close>, absent before the component is mounted. Its
  width and height are read with \<^verbatim>\<open>|| 800\<close> and \<^verbatim>\<open>|| 600\<close>, which also replace a size
  of 0.
\<close>

record Element =
  clientWidth :: nat
  clientHeight :: nat

definition containerWidth :: "Element option \<Rightarrow> real" where
  "containerWidth containerRef =
     (case containerRef of
        None \<Rightarrow> 800
      | Some el \<Rightarrow> if clientWidth el = 0 then 800 else real (clientWidth el))"

definition containerHeight :: "Element option \<Rightarrow> real" where
  "containerHeight containerRef =
     (case containerRef of
        None \<Rightarrow> 600
      | Some el \<Rightarrow> if clientHeight el = 0 then 600 else real (clientHeight el))"

text \<open>
  \<^verbatim>\<open>calculateNodePositions\<close> runs on every render. It starts from an empty record and
  assigns, in a \<^verbatim>\<open>forEach\<close> over the nodes with their indices, a point on a circle to
  the id of each node; a later node with the same id overwrites an earlier one.
\<close>

definition calculateNodePositions :: "Element option \<Rightarrow> GraphData \<Rightarrow> (string \<rightharpoonup> Point)" where
  "calculateNodePositions containerRef gd =
     (let width = containerWidth containerRef;
          height = containerHeight containerRef;
          centerX = width / 2;
          centerY = height / 2;
          nodeCount = length (nodes gd)
      in fold (\<lambda>(node, index) positions.
                 let angle = (2 * pi * real index) / real nodeCount;
                     radius = min width height * 0.3
                 in positions(node_id node \<mapsto>
                      \<lparr>x = centerX + radius * cos angle, y = centerY + radius * sin angle\<rparr>))
              (zip (nodes gd) [0..<nodeCount])
              Map.empty)"

subsection \<open>Connected nodes\<close>

definition getConnectedNodes :: "string \<Rightarrow> GraphData \<Rightarrow> string list" where
  "getConnectedNodes nodeId gd =
     map (\<lambda>e. if source e = nodeId then target e else source e)
       (filter (\<lambda>e. source e = nodeId \<or> target e = nodeId) (edges gd))"

subsection \<open>The render transform\<close>

text \<open>
  The canvas is drawn under the style
  \<^verbatim>\<open>transform: translate(${position.x}px, ${position.y}px) scale(${scale})\<close>.
  A transform is a list of functions; the list maps a point by applying its last
  function first. Points are taken relative to the origin of the transform.
\<close>

datatype TransformFunction = Translate real real | Scale real

fun applyFunction :: "TransformFunction \<Rightarrow> Point \<Rightarrow> Point" where
  "applyFunction (Translate tx ty) p = \<lparr>x = x p + tx, y = y p + ty\<rparr>"
| "applyFunction (Scale s) p = \<lparr>x = s * x p, y = s * y p\<rparr>"

definition applyTransform :: "TransformFunction list \<Rightarrow> Point \<Rightarrow> Point" where
  "applyTransform fs p = foldr applyFunction fs p"

definition renderTransform :: "ViewerState \<Rightarrow> TransformFunction list" where
  "renderTransform st = [Translate (x (position st)) (y (position st)), Scale (scale st)]"

text \<open>
  Modelled from the spec: the component has no functions \<^verbatim>\<open>toScreen\<close> and \<^verbatim>\<open>toGraph\<close>;
  its only coordinate conversion is the render transform above. The two functions follow
  the words of the specification, \<^verbatim>\<open>toScreen(p) = p * scale + offset\<close> and
  \<^verbatim>\<open>toGraph(q) = (q - offset) / scale\<close>, with \<^verbatim>\<open>position\<close> as the offset.
\<close>

definition toScreen :: "ViewerState \<Rightarrow> Point \<Rightarrow> Point" where
  "toScreen st p =
     \<lparr>x = x p * scale st + x (position st), y = y p * scale st + y (position st)\<rparr>"

definition toGraph :: "ViewerState \<Rightarrow> Point \<Rightarrow> Point" where
  "toGraph st q =
     \<lparr>x = (x q - x (position st)) / scale st, y = (y q - y (position st)) / scale st\<rparr>"

subsection \<open>Sample data\<close>

definition sampleNode :: "string \<Rightarrow> GraphNode" where
  "sampleNode i = \<lparr>node_id = i, node_type = ''user'', label = i, properties = []\<rparr>"

definition sampleEdge :: "string \<Rightarrow> string \<Rightarrow> string \<Rightarrow> GraphEdge" where
  "sampleEdge i s t = \<lparr>edge_id = i, source = s, target = t, edge_type = ''relates''\<rparr>"

text \<open>A state that holds a given graph and is otherwise the initial one.\<close>

definition holding :: "GraphData \<Rightarrow> ViewerState" where
  "holding gd = initialState\<lparr>graphData := gd\<rparr>"

text \<open>A request that settles with the given data, whatever it is asked.\<close>

definition answering :: "GraphData \<Rightarrow> string \<Rightarrow> nat \<Rightarrow> Thrown + GraphData" where
  "answering data nodeId depth = Inr data"

text \<open>A request that is rejected with the given value, whatever it is asked.\<close>

definition rejecting :: "Thrown \<Rightarrow> string \<Rightarrow> nat \<Rightarrow> Thrown + GraphData" where
  "rejecting err nodeId depth = Inl err"

text \<open>
  The chain A - B - C - D, which is the neighbourhood of B within two hops, and the
  neighbourhood of A within two hops in it, which lacks D.
\<close>

definition chainAD :: GraphData where
  "chainAD =
     \<lparr>nodes = [sampleNode ''A'', sampleNode ''B'', sampleNode ''C'', sampleNode ''D''],
      edges = [sampleEdge ''ab'' ''A'' ''B'', sampleEdge ''bc'' ''B'' ''C'',
               sampleEdge ''cd'' ''C'' ''D'']\<rparr>"

definition chainAC :: GraphData where
  "chainAC =
     \<lparr>nodes = [sampleNode ''A'', sampleNode ''B'', sampleNode ''C''],
      edges = [sampleEdge ''ab'' ''A'' ''B'', sampleEdge ''bc'' ''B'' ''C'']\<rparr>"

text \<open>The two scenarios of the specification, and a pair of parallel edges.\<close>

definition pairGraph :: GraphData where
  "pairGraph =
     \<lparr>nodes = [sampleNode ''n1'', sampleNode ''n2''],
      edges = [sampleEdge ''e1'' ''n1'' ''n2'']\<rparr>"

definition danglingGraph :: GraphData where
  "danglingGraph =
     \<lparr>nodes = [sampleNode ''n1''],
      edges = [sampleEdge ''e2'' ''n1'' ''n99'']\<rparr>"

definition doubledGraph :: GraphData where
  "doubledGraph =
     \<lparr>nodes = [sampleNode ''n1'', sampleNode ''n2''],
      edges = [sampleEdge ''e1'' ''n1'' ''n2'', sampleEdge ''e2'' ''n1'' ''n2'']\<rparr>"

text \<open>A star around n2 that contains the pair above.\<close>

definition starGraph :: GraphData where
  "starGraph =
     \<lparr>nodes = [sampleNode ''n1'', sampleNode ''n2'', sampleNode ''n3'', sampleNode ''n4''],
      edges = [sampleEdge ''e1'' ''n1'' ''n2'', sampleEdge ''e3'' ''n2'' ''n3'',
               sampleEdge ''e4'' ''n2'' ''n4'']\<rparr>"

subsection \<open>The edge invariant\<close>

text \<open>Every edge of a graph has both its endpoints among the ids of the graph's nodes.\<close>

definition endpointsPresent :: "GraphData \<Rightarrow> bool" where
  "endpointsPresent gd =
     (\<forall>e \<in> set (edges gd).
        source e \<in> set (map node_id (nodes gd)) \<and> target e \<in> set (map node_id (nodes gd)))"

section \<open>Properties\<close>

subsection \<open>Helper facts\<close>

lemma zoomClick_bounds:
  "0.3 \<le> scale st \<Longrightarrow> scale st \<le> 3 \<Longrightarrow>
   0.3 \<le> scale (zoomClick c st) \<and> scale (zoomClick c st) \<le> 3"
  by (cases c) (simp_all add: handleZoomIn_def handleZoomOut_def handleFit_def)

lemma zoomClicks_bounds:
  "0.3 \<le> scale st \<Longrightarrow> scale st \<le> 3 \<Longrightarrow>
   0.3 \<le> scale (zoomClicks cs st) \<and> scale (zoomClicks cs st) \<le> 3"
  unfolding zoomClicks_def
proof (induction cs arbitrary: st)
  case Nil
  then show ?case by simp
next
  case (Cons c cs)
  from zoomClick_bounds [OF Cons.prems] Cons.IH [of "zoomClick c st"]
  show ?case by simp
qed

text \<open>
  After a history of calls and arrivals the component holds the data of the last result
  that arrived without an error, and the graph it started with if there is none.
\<close>

lemma graphData_loadEvents:
  "graphData (loadEvents evs st) = (case lastArrived evs of None \<Rightarrow> graphData st | Some d \<Rightarrow> d)"
  unfolding loadEvents_def
proof (induction evs arbitrary: st rule: lastArrived.induct)
  case 1
  then show ?case by simp
next
  case (2 k evs)
  then show ?case by (simp add: loadGraph_start_def split: option.splits)
next
  case (3 k err evs)
  then show ?case by (simp add: loadGraph_settle_def split: option.splits)
next
  case (4 k data evs)
  then show ?case by (simp add: loadGraph_settle_def split: option.splits)
qed

lemma loadGraph_success:
  "api nodeId depth = Inr d \<Longrightarrow> loadGraph api nodeId depth st = st\<lparr>graphData := d, loading := False, error := None\<rparr>"
  by (simp add: loadGraph_def loadGraph_settle_def loadGraph_start_def)

text \<open>Each edge that touches \<open>n\<close> contributes its other endpoint, once.\<close>

lemma count_other_endpoint:
  "count_list (map (\<lambda>e. if source e = n then target e else source e)
       (filter (\<lambda>e. source e = n \<or> target e = n) es)) m =
     length (filter (\<lambda>e. (source e = n \<and> target e = m) \<or> (source e \<noteq> n \<and> target e = n \<and> source e = m)) es)"
  by (induction es) auto

text \<open>
  The loop of the layout is a sequence of updates of a map, so its result is the map of
  the reversed list of updates.
\<close>

lemma fold_update_map_of:
  "fold (\<lambda>(k, v) m. m(k \<mapsto> v)) kvs m0 = m0 ++ map_of (rev kvs)"
  by (induction kvs arbitrary: m0) (auto simp: map_add_upd_left)

lemma fold_place_as_updates:
  "fold (\<lambda>(node, index) positions. positions(node_id node \<mapsto> f index)) (zip ns is) m0
     = fold (\<lambda>(k, v) m. m(k \<mapsto> v)) (zip (map node_id ns) (map f is)) m0"
  by (induction ns arbitrary: "is" m0) (auto simp: zip_Cons1 split: list.splits)

lemma placed_nth:
  assumes "distinct (map node_id ns)" and "i < length ns"
  shows "fold (\<lambda>(node, index) positions. positions(node_id node \<mapsto> f index))
           (zip ns [0..<length ns]) Map.empty (node_id (ns ! i)) = Some (f i)"
proof -
  let ?kvs = "zip (map node_id ns) (map f [0..<length ns])"
  have keys: "map fst ?kvs = map node_id ns"
    by simp
  have "(node_id (ns ! i), f i) \<in> set ?kvs"
    using assms(2) by (auto simp: set_zip intro!: exI [of _ i])
  then have "(node_id (ns ! i), f i) \<in> set (rev ?kvs)"
    by simp
  moreover have "distinct (map fst (rev ?kvs))"
    using assms(1) keys by (simp add: rev_map [symmetric] del: map_fst_zip)
  ultimately have "map_of (rev ?kvs) (node_id (ns ! i)) = Some (f i)"
    by (rule map_of_is_SomeI [rotated])
  then show ?thesis
    by (simp add: fold_place_as_updates fold_update_map_of)
qed

text \<open>
  With distinct ids, the node at index \<open>i\<close> lies on the circle at the angle
  \<open>2 * pi * i / nodeCount\<close>.
\<close>

lemma calculateNodePositions_nth:
  assumes "distinct (map node_id (nodes gd))" and "i < length (nodes gd)"
  shows "calculateNodePositions containerRef gd (node_id (nodes gd ! i)) =
     Some \<lparr>x = containerWidth containerRef / 2
                + min (containerWidth containerRef) (containerHeight containerRef) * 0.3
                  * cos (2 * pi * real i / real (length (nodes gd))),
           y = containerHeight containerRef / 2
                + min (containerWidth containerRef) (containerHeight containerRef) * 0.3
                  * sin (2 * pi * real i / real (length (nodes gd)))\<rparr>"
  unfolding calculateNodePositions_def Let_def
  using placed_nth [OF assms] by simp

subsection \<open>Expanding a node\<close>

text \<open>
  Claim C1 (additive expansion), as the code has it. A double click on a node \<open>a\<close>
  fetches the neighbourhood of \<open>a\<close> and, when the fetch succeeds, stores the fetched
  graph in place of the graph held before: the graph afterwards is exactly the fetched
  one, and a node or an edge held before is still held exactly when the fetched graph
  contains it.
\<close>

theorem expand_replaces_graph:
  "api (node_id a) 2 = Inr d \<Longrightarrow>
   graphData (handleNodeDoubleClick api a st) = d
   \<and> (\<forall>n \<in> set (nodes (graphData st)).
        n \<in> set (nodes (graphData (handleNodeDoubleClick api a st))) \<longleftrightarrow> n \<in> set (nodes d))
   \<and> (\<forall>e \<in> set (edges (graphData st)).
        e \<in> set (edges (graphData (handleNodeDoubleClick api a st))) \<longleftrightarrow> e \<in> set (edges d))"
  by (simp add: handleNodeDoubleClick_def loadGraph_success)

theorem expand_replaces_graph_witness:
  "answering chainAC (node_id (sampleNode ''A'')) 2 = Inr chainAC
   \<and> graphData (handleNodeDoubleClick (answering chainAC) (sampleNode ''A'') (holding chainAD)) = chainAC"
proof -
  have h: "answering chainAC (node_id (sampleNode ''A'')) 2 = Inr chainAC"
    by (simp add: answering_def)
  from expand_replaces_graph [of "answering chainAC" "sampleNode ''A''" chainAC "holding chainAD"] h
  show ?thesis by simp
qed

text \<open>
  Claim C1 as stated fails. The component holds the chain A - B - C - D and the node A is
  double-clicked; the request answers with the neighbourhood A - B - C. The node D and
  the edge from C to D were held before the call and are not held after it.
\<close>

theorem expand_removes_counterexample:
  "sampleNode ''A'' \<in> set (nodes (graphData (holding chainAD)))
   \<and> sampleNode ''D'' \<in> set (nodes (graphData (holding chainAD)))
   \<and> sampleNode ''D'' \<notin>
       set (nodes (graphData (handleNodeDoubleClick (answering chainAC) (sampleNode ''A'') (holding chainAD))))
   \<and> sampleEdge ''cd'' ''C'' ''D'' \<in> set (edges (graphData (holding chainAD)))
   \<and> sampleEdge ''cd'' ''C'' ''D'' \<notin>
       set (edges (graphData (handleNodeDoubleClick (answering chainAC) (sampleNode ''A'') (holding chainAD))))"
  by (simp add: handleNodeDoubleClick_def loadGraph_def loadGraph_settle_def loadGraph_start_def
      answering_def holding_def chainAD_def chainAC_def sampleNode_def sampleEdge_def)

subsection \<open>Edges and their endpoints\<close>

text \<open>
  Claim C2 (edge-endpoint invariant), as the code has it. After any history of fetches
  in which some result arrived without an error, the component holds the nodes and the
  edges of the last such result as they were fetched: no edge is dropped, and every held
  edge has both endpoints among the held nodes exactly when that is so in that result.
\<close>

theorem stored_edges_as_fetched:
  "lastArrived evs = Some d \<Longrightarrow>
   edges (graphData (loadEvents evs st)) = edges d
   \<and> nodes (graphData (loadEvents evs st)) = nodes d
   \<and> (endpointsPresent (graphData (loadEvents evs st)) \<longleftrightarrow> endpointsPresent d)"
  by (simp add: graphData_loadEvents)

theorem stored_edges_as_fetched_witness:
  "lastArrived [Issue 0, Settle 0 (Inr danglingGraph), Issue 1, Settle 1 (Inr pairGraph)] = Some pairGraph
   \<and> endpointsPresent (graphData (loadEvents [Issue 0, Settle 0 (Inr danglingGraph), Issue 1, Settle 1 (Inr pairGraph)] initialState))
   \<and> \<not> endpointsPresent danglingGraph"
proof -
  have h: "lastArrived [Issue 0, Settle 0 (Inr danglingGraph), Issue 1, Settle 1 (Inr pairGraph)] = Some pairGraph"
    by simp
  have p: "endpointsPresent pairGraph"
    by (simp add: endpointsPresent_def pairGraph_def sampleNode_def sampleEdge_def)
  have q: "\<not> endpointsPresent danglingGraph"
    by (simp add: endpointsPresent_def danglingGraph_def sampleNode_def sampleEdge_def)
  from stored_edges_as_fetched [OF h, of initialState] h p q show ?thesis by simp
qed

text \<open>
  Claim C2 as stated fails. After the nodes n1, n2 and the edge e1 have been loaded, a
  fetch answers with the node n1 and the edge e2 from n1 to n99. The edge e2 is held
  afterwards, and no held node has the id n99.
\<close>

theorem dangling_edge_stored_counterexample:
  "sampleEdge ''e2'' ''n1'' ''n99''
     \<in> set (edges (graphData (loadEvents [Issue 0, Settle 0 (Inr pairGraph), Issue 1, Settle 1 (Inr danglingGraph)] initialState)))
   \<and> ''n99'' \<notin> set (map node_id
        (nodes (graphData (loadEvents [Issue 0, Settle 0 (Inr pairGraph), Issue 1, Settle 1 (Inr danglingGraph)] initialState))))"
  by (simp add: loadEvents_def loadGraph_settle_def loadGraph_start_def
      danglingGraph_def sampleNode_def sampleEdge_def)

subsection \<open>Layout\<close>

text \<open>
  Claim C3 (layout stability), as the code has it. The layout is computed anew from the
  held graph on every render, and the position of a node depends on its index in the
  list of nodes, on the number of nodes and on the size of the container. So, for two
  graphs with distinct node ids and the same number of nodes, laid out in the same
  container, a node that has the same index in both has the same position in both.
\<close>

theorem layout_kept_at_same_index_and_count:
  assumes "distinct (map node_id (nodes gd))" and "distinct (map node_id (nodes gd'))"
    and "length (nodes gd') = length (nodes gd)"
    and "i < length (nodes gd)"
    and "node_id (nodes gd' ! i) = node_id (nodes gd ! i)"
  shows "calculateNodePositions containerRef gd' (node_id (nodes gd ! i))
           = calculateNodePositions containerRef gd (node_id (nodes gd ! i))
         \<and> calculateNodePositions containerRef gd (node_id (nodes gd ! i)) \<noteq> None"
proof -
  have "i < length (nodes gd')"
    using assms(3,4) by simp
  from calculateNodePositions_nth [OF assms(2) this, of containerRef]
    calculateNodePositions_nth [OF assms(1,4), of containerRef]
  show ?thesis
    by (simp add: assms(3,5))
qed

theorem layout_kept_at_same_index_and_count_witness:
  "distinct (map node_id (nodes pairGraph)) \<and> distinct (map node_id (nodes doubledGraph))
   \<and> length (nodes doubledGraph) = length (nodes pairGraph)
   \<and> 1 < length (nodes pairGraph)
   \<and> node_id (nodes doubledGraph ! 1) = ''n2'' \<and> node_id (nodes pairGraph ! 1) = ''n2''
   \<and> calculateNodePositions None doubledGraph ''n2'' = calculateNodePositions None pairGraph ''n2''
   \<and> calculateNodePositions None pairGraph ''n2'' \<noteq> None"
  using layout_kept_at_same_index_and_count [of pairGraph doubledGraph 1 None]
  by (simp add: pairGraph_def doubledGraph_def sampleNode_def)

text \<open>
  Claim C3 as stated fails. The component holds the nodes n1 and n2 in an unmounted
  container (800 by 600), so n2 lies at (220, 300). The node n2 is double-clicked and the
  request answers with the four nodes n1, n2, n3, n4. The node n2 was present before,
  and its position afterwards is (400, 480).
\<close>

theorem layout_moves_node_counterexample:
  "sampleNode ''n2'' \<in> set (nodes (graphData (holding pairGraph)))
   \<and> calculateNodePositions None (graphData (holding pairGraph)) ''n2''
       = Some \<lparr>x = 220, y = 300\<rparr>
   \<and> calculateNodePositions None
        (graphData (handleNodeDoubleClick (answering starGraph) (sampleNode ''n2'') (holding pairGraph))) ''n2''
       = Some \<lparr>x = 400, y = 480\<rparr>"
  by (simp add: calculateNodePositions_def Let_def containerWidth_def containerHeight_def
      handleNodeDoubleClick_def loadGraph_def loadGraph_settle_def loadGraph_start_def
      answering_def holding_def pairGraph_def starGraph_def sampleNode_def)

subsection \<open>Overlapping fetches\<close>

text \<open>
  Claim C4 (stale responses), as the code has it. Every result that arrives without an
  error is stored on arrival, whatever call it belongs to and whatever calls were made
  since: after any history the component holds the data of the result that arrived
  last, which need not be the result of the newest call.
\<close>

theorem every_response_applied:
  "graphData (loadEvents (evs @ [Settle k (Inr d)]) st) = d
   \<and> graphData (loadEvents evs st) = (case lastArrived evs of None \<Rightarrow> graphData st | Some d' \<Rightarrow> d')"
  using graphData_loadEvents [of evs st]
  by (simp add: loadEvents_def loadGraph_settle_def)

text \<open>
  Claim C4 as stated fails. Call 1 is made, call 2 is made while call 1 is outstanding,
  the result of call 2 arrives and then the result of call 1. The component ends with
  the data of call 1, the superseded one.
\<close>

theorem stale_response_applied_counterexample:
  "graphData (loadEvents [Issue 1, Issue 2, Settle 2 (Inr chainAD), Settle 1 (Inr chainAC)] initialState)
     = chainAC
   \<and> chainAC \<noteq> chainAD"
  by (simp add: loadEvents_def loadGraph_settle_def loadGraph_start_def chainAC_def chainAD_def)

subsection \<open>Coordinates\<close>

text \<open>
  Claim C5 (coordinate round trip). For every state with a positive scale and every
  point \<open>p\<close>, \<open>toGraph (toScreen p) = p\<close>, and the render transform of the component
  maps \<open>p\<close> to \<open>toScreen p\<close>: it scales by \<open>scale\<close> and then translates by \<open>position\<close>.
  The numbers are reals, so the round trip is exact.
\<close>

theorem coordinate_round_trip:
  "0 < scale st \<Longrightarrow>
   toGraph st (toScreen st p) = p \<and> applyTransform (renderTransform st) p = toScreen st p"
  by (simp add: toGraph_def toScreen_def applyTransform_def renderTransform_def mult.commute)

theorem coordinate_round_trip_witness:
  "0 < scale (handleZoomIn (initialState\<lparr>position := \<lparr>x = 30, y = -12\<rparr>\<rparr>))
   \<and> toScreen (handleZoomIn (initialState\<lparr>position := \<lparr>x = 30, y = -12\<rparr>\<rparr>)) \<lparr>x = 5, y = 10\<rparr>
       = \<lparr>x = 36, y = 0\<rparr>
   \<and> toGraph (handleZoomIn (initialState\<lparr>position := \<lparr>x = 30, y = -12\<rparr>\<rparr>)) \<lparr>x = 36, y = 0\<rparr>
       = \<lparr>x = 5, y = 10\<rparr>"
proof -
  have h: "0 < scale (handleZoomIn (initialState\<lparr>position := \<lparr>x = 30, y = -12\<rparr>\<rparr>))"
    by (simp add: handleZoomIn_def initialState_def)
  have s: "toScreen (handleZoomIn (initialState\<lparr>position := \<lparr>x = 30, y = -12\<rparr>\<rparr>)) \<lparr>x = 5, y = 10\<rparr>
       = \<lparr>x = 36, y = 0\<rparr>"
    by (simp add: toScreen_def handleZoomIn_def initialState_def)
  from coordinate_round_trip [OF h, of "\<lparr>x = 5, y = 10\<rparr>"] h s show ?thesis by simp
qed

subsection \<open>Connected nodes\<close>

text \<open>
  Claim C6 (connected-node query), as the code has it. The query walks the edges in
  their order and yields, for each edge that touches \<open>n\<close>, its other endpoint (the target
  when the source is \<open>n\<close>, the source otherwise); an edge that does not touch \<open>n\<close> yields
  nothing. Nothing is collapsed: a neighbour \<open>m\<close> occurs once for every edge between
  \<open>n\<close> and \<open>m\<close>. After loading the nodes n1, n2 and the edge e1 from n1 to n2, the
  query for n1 yields n2 alone.
\<close>

theorem connected_nodes_per_edge:
  "getConnectedNodes n (gd\<lparr>edges := []\<rparr>) = []
   \<and> getConnectedNodes n (gd\<lparr>edges := e # es\<rparr>) =
       (if source e = n then [target e] else if target e = n then [source e] else [])
       @ getConnectedNodes n (gd\<lparr>edges := es\<rparr>)
   \<and> count_list (getConnectedNodes n gd) m =
       length (filter (\<lambda>e. (source e = n \<and> target e = m) \<or> (source e \<noteq> n \<and> target e = n \<and> source e = m))
         (edges gd))
   \<and> getConnectedNodes ''n1'' (graphData (loadGraph (answering pairGraph) ''n1'' 2 initialState))
       = [''n2'']"
proof -
  have scenario: "getConnectedNodes ''n1''
      (graphData (loadGraph (answering pairGraph) ''n1'' 2 initialState)) = [''n2'']"
    by (simp add: getConnectedNodes_def loadGraph_def loadGraph_settle_def loadGraph_start_def
        answering_def pairGraph_def sampleEdge_def)
  have count: "count_list (getConnectedNodes n gd) m =
       length (filter (\<lambda>e. (source e = n \<and> target e = m) \<or> (source e \<noteq> n \<and> target e = n \<and> source e = m))
         (edges gd))"
    unfolding getConnectedNodes_def by (rule count_other_endpoint)
  show ?thesis
    using scenario count by (simp add: getConnectedNodes_def)
qed

theorem connected_nodes_per_edge_witness:
  "getConnectedNodes ''n2'' starGraph = [''n1'', ''n3'', ''n4'']
   \<and> count_list (getConnectedNodes ''n1'' doubledGraph) ''n2'' = 2"
  using connected_nodes_per_edge [of "''n1''" doubledGraph _ _ "''n2''"]
  by (simp add: getConnectedNodes_def starGraph_def doubledGraph_def sampleEdge_def)

text \<open>
  Claim C6 as stated fails. With two edges from n1 to n2 loaded, the query for n1 yields
  n2 twice.
\<close>

theorem connected_nodes_duplicates_counterexample:
  "getConnectedNodes ''n1'' (graphData (loadGraph (answering doubledGraph) ''n1'' 2 initialState))
     = [''n2'', ''n2'']
   \<and> \<not> distinct (getConnectedNodes ''n1''
          (graphData (loadGraph (answering doubledGraph) ''n1'' 2 initialState)))"
  by (simp add: getConnectedNodes_def loadGraph_def loadGraph_settle_def loadGraph_start_def
      answering_def doubledGraph_def sampleEdge_def)

text \<open>
  Claim C10 (self-loops). A node \<open>n\<close> occurs among its own connected nodes once for
  every edge whose source and target are both \<open>n\<close>; so it occurs there when there is
  such an edge.
\<close>

theorem self_loop_is_own_neighbour:
  "count_list (getConnectedNodes n gd) n =
     length (filter (\<lambda>e. source e = n \<and> target e = n) (edges gd))
   \<and> (e \<in> set (edges gd) \<and> source e = n \<and> target e = n \<longrightarrow> n \<in> set (getConnectedNodes n gd))"
proof -
  have "count_list (getConnectedNodes n gd) n =
     length (filter (\<lambda>e. (source e = n \<and> target e = n) \<or> (source e \<noteq> n \<and> target e = n \<and> source e = n))
       (edges gd))"
    unfolding getConnectedNodes_def by (rule count_other_endpoint)
  also have "\<dots> = length (filter (\<lambda>e. source e = n \<and> target e = n) (edges gd))"
    by (rule arg_cong [where f = length], rule filter_cong) auto
  finally have count: "count_list (getConnectedNodes n gd) n =
     length (filter (\<lambda>e. source e = n \<and> target e = n) (edges gd))" .
  have "n \<in> set (getConnectedNodes n gd)"
    if "e \<in> set (edges gd)" "source e = n" "target e = n"
    using that unfolding getConnectedNodes_def by force
  with count show ?thesis by blast
qed

theorem self_loop_is_own_neighbour_witness:
  "count_list (getConnectedNodes ''n1''
       \<lparr>nodes = [sampleNode ''n1''],
        edges = [sampleEdge ''l1'' ''n1'' ''n1'', sampleEdge ''l2'' ''n1'' ''n1'']\<rparr>) ''n1'' = 2
   \<and> ''n1'' \<in> set (getConnectedNodes ''n1''
       \<lparr>nodes = [sampleNode ''n1''],
        edges = [sampleEdge ''l1'' ''n1'' ''n1'', sampleEdge ''l2'' ''n1'' ''n1'']\<rparr>)"
  using self_loop_is_own_neighbour
    [of "''n1''" "\<lparr>nodes = [sampleNode ''n1''],
        edges = [sampleEdge ''l1'' ''n1'' ''n1'', sampleEdge ''l2'' ''n1'' ''n1'']\<rparr>"
        "sampleEdge ''l1'' ''n1'' ''n1''"]
  by (simp add: sampleEdge_def)

subsection \<open>Zoom\<close>

text \<open>
  Claim C7 (zoom). Zooming in sets the scale to \<open>min (scale * 1.2) 3\<close>, zooming out sets
  it to \<open>max (scale / 1.2) 0.3\<close>. A scale between 0.3 and 3 stays there under any
  sequence of clicks on the zoom buttons, and so does the scale of the component, which
  starts at 1. Three clicks on zoom-in from a scale of 1 give \<open>1.2 ^ 3 = 1.728\<close>.
\<close>

theorem zoom_scale_bounded:
  "scale (handleZoomIn st) = min (scale st * 1.2) 3
   \<and> scale (handleZoomOut st) = max (scale st / 1.2) 0.3
   \<and> (0.3 \<le> scale st \<and> scale st \<le> 3 \<longrightarrow>
        0.3 \<le> scale (zoomClicks cs st) \<and> scale (zoomClicks cs st) \<le> 3)
   \<and> 0.3 \<le> scale (zoomClicks cs initialState) \<and> scale (zoomClicks cs initialState) \<le> 3
   \<and> (scale st = 1 \<longrightarrow>
        scale (handleZoomIn (handleZoomIn (handleZoomIn st))) = 1.2 ^ 3
        \<and> scale (handleZoomIn (handleZoomIn (handleZoomIn st))) = 1.728)"
proof -
  have init: "0.3 \<le> scale initialState" "scale initialState \<le> 3"
    by (simp_all add: initialState_def)
  have three: "scale (handleZoomIn (handleZoomIn (handleZoomIn st))) = 1.728" if "scale st = 1"
    using that by (simp add: handleZoomIn_def)
  have cube: "(1.2::real) ^ 3 = 1.728"
    by (simp add: power3_eq_cube)
  show ?thesis
    using zoomClicks_bounds [of st cs] zoomClicks_bounds [OF init, of cs] three cube
    by (simp add: handleZoomIn_def handleZoomOut_def)
qed

theorem zoom_scale_bounded_witness:
  "0.3 \<le> scale (handleZoomOut initialState) \<and> scale (handleZoomOut initialState) \<le> 3
   \<and> 0.3 \<le> scale (zoomClicks [ZoomOut, ZoomOut, ZoomIn] (handleZoomOut initialState))
   \<and> scale (zoomClicks [ZoomOut, ZoomOut, ZoomIn] (handleZoomOut initialState)) \<le> 3
   \<and> scale initialState = 1
   \<and> scale (handleZoomIn (handleZoomIn (handleZoomIn initialState))) = 1.728"
proof -
  have range: "0.3 \<le> scale (handleZoomOut initialState)" "scale (handleZoomOut initialState) \<le> 3"
    by (simp_all add: handleZoomOut_def initialState_def)
  have one: "scale initialState = 1"
    by (simp add: initialState_def)
  from zoom_scale_bounded [of "handleZoomOut initialState" "[ZoomOut, ZoomOut, ZoomIn]"]
    zoom_scale_bounded [of initialState "[]"] range one
  show ?thesis
    by simp
qed

subsection \<open>Panning\<close>

text \<open>
  Claim C8 (pan state machine). The component is idle when \<open>isDragging\<close> is false and
  panning when it is true. A mouse-down on the canvas at \<open>p\<close> makes it panning and
  records \<open>dragStart = p - position\<close>; a mouse-move at \<open>p\<close> while panning sets
  \<open>position = p - dragStart\<close>; a mouse-up makes it idle; a mouse-move while idle changes
  nothing. None of them changes any other part of the state.
\<close>

theorem pan_state_machine:
  "(targetOnCanvas e \<longrightarrow>
      handleMouseDown e st =
        st\<lparr>isDragging := True,
           dragStart := \<lparr>x = clientX e - x (position st), y = clientY e - y (position st)\<rparr>\<rparr>)
   \<and> (isDragging st \<longrightarrow>
        handleMouseMove e st =
          st\<lparr>position := \<lparr>x = clientX e - x (dragStart st), y = clientY e - y (dragStart st)\<rparr>\<rparr>)
   \<and> handleMouseUp st = st\<lparr>isDragging := False\<rparr>
   \<and> (\<not> isDragging st \<longrightarrow> handleMouseMove e st = st)"
  by (simp add: handleMouseDown_def handleMouseMove_def handleMouseUp_def)

theorem pan_state_machine_witness:
  "targetOnCanvas \<lparr>clientX = 10, clientY = 20, targetOnCanvas = True\<rparr>
   \<and> \<not> isDragging (initialState\<lparr>position := \<lparr>x = 3, y = 4\<rparr>\<rparr>)
   \<and> handleMouseMove \<lparr>clientX = 50, clientY = 60, targetOnCanvas = True\<rparr>
        (initialState\<lparr>position := \<lparr>x = 3, y = 4\<rparr>\<rparr>)
       = initialState\<lparr>position := \<lparr>x = 3, y = 4\<rparr>\<rparr>
   \<and> isDragging (handleMouseDown \<lparr>clientX = 10, clientY = 20, targetOnCanvas = True\<rparr>
        (initialState\<lparr>position := \<lparr>x = 3, y = 4\<rparr>\<rparr>))
   \<and> dragStart (handleMouseDown \<lparr>clientX = 10, clientY = 20, targetOnCanvas = True\<rparr>
        (initialState\<lparr>position := \<lparr>x = 3, y = 4\<rparr>\<rparr>))
       = \<lparr>x = 7, y = 16\<rparr>
   \<and> position (handleMouseMove \<lparr>clientX = 50, clientY = 60, targetOnCanvas = True\<rparr>
        (handleMouseDown \<lparr>clientX = 10, clientY = 20, targetOnCanvas = True\<rparr>
          (initialState\<lparr>position := \<lparr>x = 3, y = 4\<rparr>\<rparr>)))
       = \<lparr>x = 43, y = 44\<rparr>"
proof -
  let ?down = "\<lparr>clientX = 10, clientY = 20, targetOnCanvas = True\<rparr>"
  let ?move = "\<lparr>clientX = 50, clientY = 60, targetOnCanvas = True\<rparr>"
  let ?idle = "initialState\<lparr>position := \<lparr>x = 3, y = 4\<rparr>\<rparr>"
  have idle: "\<not> isDragging ?idle"
    by (simp add: initialState_def)
  from pan_state_machine [of ?down ?idle]
  have down: "handleMouseDown ?down ?idle =
      ?idle\<lparr>isDragging := True, dragStart := \<lparr>x = 7, y = 16\<rparr>\<rparr>"
    by simp
  from pan_state_machine [of ?move ?idle] idle
  have still: "handleMouseMove ?move ?idle = ?idle"
    by simp
  from pan_state_machine [of ?move "handleMouseDown ?down ?idle"] down
  have "position (handleMouseMove ?move (handleMouseDown ?down ?idle)) = \<lparr>x = 43, y = 44\<rparr>"
    by simp
  with idle down still show ?thesis
    by simp
qed

subsection \<open>A failed fetch\<close>

text \<open>
  Claim C9 (fetch failure). When the request of \<^verbatim>\<open>loadGraph\<close> is rejected, the state
  after the call is the state before it with the error message set and the loading flag
  cleared: the held graph is the one held before, and so is the layout derived from it.
  Neither part of the call touches the graph: not the part before the request, and not
  the arrival of the rejection, in whatever state it arrives.
\<close>

theorem failed_load_keeps_graph:
  "api nodeId depth = Inl err \<Longrightarrow>
   loadGraph api nodeId depth st = st\<lparr>error := Some (errorText err), loading := False\<rparr>
   \<and> graphData (loadGraph api nodeId depth st) = graphData st
   \<and> calculateNodePositions containerRef (graphData (loadGraph api nodeId depth st))
       = calculateNodePositions containerRef (graphData st)
   \<and> graphData (loadGraph_start st) = graphData st
   \<and> graphData (loadGraph_settle (Inl err) st) = graphData st"
  by (simp add: loadGraph_def loadGraph_settle_def loadGraph_start_def)

theorem failed_load_keeps_graph_witness:
  "rejecting (ErrorObject ''Network Error'') ''A'' 2 = Inl (ErrorObject ''Network Error'')
   \<and> graphData (loadGraph (rejecting (ErrorObject ''Network Error'')) ''A'' 2 (holding chainAD))
       = chainAD
   \<and> error (loadGraph (rejecting (ErrorObject ''Network Error'')) ''A'' 2 (holding chainAD))
       = Some ''Network Error''
   \<and> \<not> loading (loadGraph (rejecting (ErrorObject ''Network Error'')) ''A'' 2 (holding chainAD))"
proof -
  have h: "rejecting (ErrorObject ''Network Error'') ''A'' 2 = Inl (ErrorObject ''Network Error'')"
    by (simp add: rejecting_def)
  from failed_load_keeps_graph
    [of "rejecting (ErrorObject ''Network Error'')" "''A''" 2 "ErrorObject ''Network Error''"
        "holding chainAD" None] h
  show ?thesis
    by (simp add: holding_def)
qed

end
